theory Spec2Isabelle
  imports Complex_Main "HOL-Library.AList" "HOL-Library.Sublist" "HOL-Library.Word"
begin

section \<open>JavaScript values and the platform\<close>

text \<open>
  The adapter is TypeScript. What it reads from the network is the result of
  \<^verbatim>\<open>response.json()\<close>, an untyped JSON value; the type annotations of the source
  (\<^verbatim>\<open>EmbeddingApiResponse\<close>, \<^verbatim>\<open>TranscriptionApiResponse\<close>) are casts and check nothing
  at run time. The model therefore keeps the JSON value as it is and writes out what each
  property read, optional chain, \<^verbatim>\<open>??\<close> and \<^verbatim>\<open>.map\<close> of the source does on every JSON
  value, including the \<^verbatim>\<open>TypeError\<close> it throws on a bad shape.

  Objects are association lists with distinct keys in insertion order; the value
  \<^verbatim>\<open>undefined\<close> is \<open>None\<close>. Numbers are kept as rationals: the adapter never computes with
  them, it only passes them on and tests them for truthiness. Property names are ordinary
  keys; the special name \<^verbatim>\<open>__proto__\<close> is outside the model.
\<close>

datatype json =
    JNull
  | JBool bool
  | JNumber rat
  | JString string
  | JArray "json list"
  | JObject "(string \<times> json) list"

type_synonym js_value = "json option"

datatype js_error =
    Error string
  | TypeError string
  | SyntaxError string
  | LoadAPIKeyError string
  | TransportError string

text \<open>Truthiness of a value, as \<^verbatim>\<open>if (v)\<close> and \<^verbatim>\<open>v ? a : b\<close> test it.\<close>

fun truthy :: "js_value \<Rightarrow> bool" where
  "truthy None = False"
| "truthy (Some JNull) = False"
| "truthy (Some (JBool b)) = b"
| "truthy (Some (JNumber n)) = (n \<noteq> 0)"
| "truthy (Some (JString s)) = (s \<noteq> [])"
| "truthy (Some (JArray xs)) = True"
| "truthy (Some (JObject kvs)) = True"

text \<open>
  \<^verbatim>\<open>v.name\<close> for the names the adapter reads (\<^verbatim>\<open>data\<close>, \<^verbatim>\<open>usage\<close>, \<^verbatim>\<open>embedding\<close>,
  \<^verbatim>\<open>total_tokens\<close>, \<^verbatim>\<open>prompt_tokens\<close>, \<^verbatim>\<open>text\<close>, \<^verbatim>\<open>segments\<close>, \<^verbatim>\<open>start\<close>, \<^verbatim>\<open>end\<close>,
  \<^verbatim>\<open>language\<close>, \<^verbatim>\<open>duration\<close>): reading from \<^verbatim>\<open>null\<close> throws, an object gives its own
  property or \<^verbatim>\<open>undefined\<close>, and arrays, strings, numbers and booleans have no property
  of these names.
\<close>

fun get_prop :: "json \<Rightarrow> string \<Rightarrow> js_error + js_value" where
  "get_prop JNull name =
     Inl (TypeError (''Cannot read properties of null (reading '' @ name @ '')''))"
| "get_prop (JObject kvs) name = Inr (map_of kvs name)"
| "get_prop v name = Inr None"

text \<open>\<^verbatim>\<open>Array.isArray(v)\<close>.\<close>

fun isArray :: "json \<Rightarrow> bool" where
  "isArray (JArray xs) = True"
| "isArray v = False"

text \<open>\<^verbatim>\<open>a ?? b\<close>: the right operand replaces \<^verbatim>\<open>undefined\<close> and \<^verbatim>\<open>null\<close> only.\<close>

fun nullish :: "js_value \<Rightarrow> bool" where
  "nullish None = True"
| "nullish (Some JNull) = True"
| "nullish (Some v) = False"

definition or_else :: "js_value \<Rightarrow> json \<Rightarrow> json" where
  "or_else a b = (case a of None \<Rightarrow> b | Some v \<Rightarrow> (if nullish a then b else v))"

text \<open>A callback that may throw, run over an array from left to right.\<close>

fun map_throwing :: "('a \<Rightarrow> js_error + 'b) \<Rightarrow> 'a list \<Rightarrow> js_error + 'b list" where
  "map_throwing f [] = Inr []"
| "map_throwing f (x # xs) =
     (case f x of
        Inl e \<Rightarrow> Inl e
      | Inr y \<Rightarrow> (case map_throwing f xs of Inl e \<Rightarrow> Inl e | Inr ys \<Rightarrow> Inr (y # ys)))"

text \<open>
  \<^verbatim>\<open>v?.map(f)\<close> on a value that was read from a property: \<^verbatim>\<open>undefined\<close> and \<^verbatim>\<open>null\<close>
  short-circuit to \<^verbatim>\<open>undefined\<close>, an array is mapped, and any other value has no
  \<^verbatim>\<open>map\<close> method, so the call throws.
\<close>

fun optional_map :: "(json \<Rightarrow> js_error + 'b) \<Rightarrow> js_value \<Rightarrow> js_error + 'b list option" where
  "optional_map f None = Inr None"
| "optional_map f (Some JNull) = Inr None"
| "optional_map f (Some (JArray xs)) =
     (case map_throwing f xs of Inl e \<Rightarrow> Inl e | Inr ys \<Rightarrow> Inr (Some ys))"
| "optional_map f (Some v) = Inl (TypeError ''map is not a function'')"

text \<open>
  Object spread \<^verbatim>\<open>{...base, ...src}\<close> and \<^verbatim>\<open>Object.assign(base, src)\<close>: every entry of
  \<open>src\<close> is written into \<open>base\<close>, replacing the value of a key that is already there and
  appending a new key. \<^verbatim>\<open>obj[key] = value\<close> is \<^const>\<open>AList.update\<close>.
\<close>

definition obj_assign :: "(string \<times> 'v) list \<Rightarrow> (string \<times> 'v) list \<Rightarrow> (string \<times> 'v) list" where
  "obj_assign base src = fold (\<lambda>(key, v) obj. AList.update key v obj) src base"

text \<open>The decimal digits of a number, as a template literal prints an integer.\<close>

definition digit_char :: "nat \<Rightarrow> char" where
  "digit_char d = ''0123456789'' ! (d mod 10)"

fun string_of_nat :: "nat \<Rightarrow> string" where
  "string_of_nat n =
     (if n < 10 then [digit_char n] else string_of_nat (n div 10) @ [digit_char (n mod 10)])"

declare string_of_nat.simps [simp del]

subsection \<open>HTTP\<close>

text \<open>
  The transport is \<^verbatim>\<open>config.fetch ?? fetch\<close>. A call either throws (a transport error
  or an abort) or resolves to a response object; the model keeps of the response what the
  adapter reads: \<^verbatim>\<open>status\<close>, the header entries in the order \<^verbatim>\<open>headers.forEach\<close> visits
  them, what \<^verbatim>\<open>text()\<close> resolves to and what \<^verbatim>\<open>json()\<close> resolves to or rejects with.
  \<^verbatim>\<open>response.ok\<close> is the status being in the range 200 to 299.
\<close>

record http_request =
  url :: string
  req_method :: string
  req_headers :: "(string \<times> string) list"
  req_body :: string
  signal :: "nat option"

record http_response =
  status :: nat
  resp_headers :: "(string \<times> string) list"
  resp_text :: string
  resp_json :: "js_error + json"

type_synonym fetch_fn = "http_request \<Rightarrow> js_error + http_response"

definition ok :: "http_response \<Rightarrow> bool" where
  "ok response = (200 \<le> status response \<and> status response \<le> 299)"

text \<open>
  What the run-time platform provides: the global \<^verbatim>\<open>fetch\<close>, \<^verbatim>\<open>JSON.stringify\<close> and
  the clock behind \<^verbatim>\<open>new Date()\<close>. The environment \<^verbatim>\<open>process.env\<close> is a map that may
  differ from one moment to the next, so every operation takes the environment of the
  moment it runs.
\<close>

record platform =
  global_fetch :: fetch_fn
  json_stringify :: "json \<Rightarrow> string"
  date_now :: nat

type_synonym env = "string \<rightharpoonup> string"

record model_config =
  cfg_provider :: string
  cfg_baseURL :: string
  cfg_headers :: "env \<Rightarrow> js_error + (string \<times> string) list"
  cfg_fetch :: "fetch_fn option"

section \<open>Request headers\<close>

text \<open>
  Both translators build the outbound headers with the same statements:
  \<^verbatim>\<open>
  const headers = { 'Content-Type': 'application/json', ...this.config.headers() };
  if (additionalHeaders) {
    for (const [key, value] of Object.entries(additionalHeaders)) {
      if (value !== undefined) { headers[key] = value; }
    }
  }\<close>
\<close>

definition request_headers ::
  "(string \<times> string) list \<Rightarrow> (string \<times> string option) list option \<Rightarrow> (string \<times> string) list" where
  "request_headers config_headers additionalHeaders =
     (let headers = obj_assign [(''Content-Type'', ''application/json'')] config_headers
      in case additionalHeaders of
           None \<Rightarrow> headers
         | Some entries \<Rightarrow>
             fold (\<lambda>(key, v) hs. case v of None \<Rightarrow> hs | Some s \<Rightarrow> AList.update key s hs)
               entries headers)"

text \<open>\<^verbatim>\<open>response.headers.forEach((value, key) => { responseHeaders[key] = value; })\<close>\<close>

definition capture_headers :: "http_response \<Rightarrow> (string \<times> string) list" where
  "capture_headers response = obj_assign [] (resp_headers response)"

section \<open>The embedding translator\<close>

record embedding_model =
  emb_modelId :: string
  emb_provider :: string
  emb_config :: model_config

definition ScxEmbeddingModel :: "string \<Rightarrow> model_config \<Rightarrow> embedding_model" where
  "ScxEmbeddingModel modelId config =
     \<lparr>emb_modelId = modelId, emb_provider = cfg_provider config, emb_config = config\<rparr>"

definition maxEmbeddingsPerCall :: nat where
  "maxEmbeddingsPerCall = 2048"

record embed_options =
  e_values :: "string list"
  e_abortSignal :: "nat option"
  e_headers :: "(string \<times> string option) list option"

record embed_usage =
  tokens :: json

record embed_result =
  embeddings :: "js_value list"
  usage :: "embed_usage option"
  rawResponse_headers :: "(string \<times> string) list"

text \<open>
  \<^verbatim>\<open>
  const embeddings = Array.isArray(responseBody)
    ? responseBody.map((d) => d.embedding)
    : (responseBody.data?.map((d) => d.embedding) ?? []);\<close>
\<close>

definition embeddings_of :: "json \<Rightarrow> js_error + js_value list" where
  "embeddings_of responseBody =
     (case responseBody of
        JArray items \<Rightarrow> map_throwing (\<lambda>d. get_prop d ''embedding'') items
      | _ \<Rightarrow>
          (case get_prop responseBody ''data'' of
             Inl e \<Rightarrow> Inl e
           | Inr data \<Rightarrow>
               (case optional_map (\<lambda>d. get_prop d ''embedding'') data of
                  Inl e \<Rightarrow> Inl e
                | Inr None \<Rightarrow> Inr []
                | Inr (Some es) \<Rightarrow> Inr es)))"

text \<open>
  \<^verbatim>\<open>
  const usage = !Array.isArray(responseBody) && responseBody.usage
    ? { tokens: responseBody.usage.total_tokens ?? responseBody.usage.prompt_tokens ?? 0 }
    : undefined;\<close>
  The statement runs after \<open>embeddings\<close> was computed, so \<open>responseBody\<close> is not
  \<^verbatim>\<open>null\<close> here; the model keeps the error branches all the same.
\<close>

definition usage_of :: "json \<Rightarrow> js_error + embed_usage option" where
  "usage_of responseBody =
     (if isArray responseBody then Inr None
      else case get_prop responseBody ''usage'' of
             Inl e \<Rightarrow> Inl e
           | Inr None \<Rightarrow> Inr None
           | Inr (Some u) \<Rightarrow>
               (if truthy (Some u) then
                  (case get_prop u ''total_tokens'' of
                     Inl e \<Rightarrow> Inl e
                   | Inr total_tokens \<Rightarrow>
                       (if nullish total_tokens then
                          (case get_prop u ''prompt_tokens'' of
                             Inl e \<Rightarrow> Inl e
                           | Inr prompt_tokens \<Rightarrow>
                               Inr (Some \<lparr>tokens = or_else prompt_tokens (JNumber 0)\<rparr>))
                        else Inr (Some \<lparr>tokens = or_else total_tokens (JNumber 0)\<rparr>)))
                else Inr None))"

definition embed_request :: "embedding_model \<Rightarrow> platform \<Rightarrow> embed_options \<Rightarrow>
    (string \<times> string) list \<Rightarrow> http_request" where
  "embed_request this pf options config_headers =
     \<lparr>url = cfg_baseURL (emb_config this) @ ''/embeddings'',
      req_method = ''POST'',
      req_headers = request_headers config_headers (e_headers options),
      req_body = json_stringify pf (JObject
        [(''model'', JString (emb_modelId this)),
         (''input'', JArray (map JString (e_values options)))]),
      signal = e_abortSignal options\<rparr>"

definition fetchFn :: "platform \<Rightarrow> model_config \<Rightarrow> fetch_fn" where
  "fetchFn pf config = (case cfg_fetch config of None \<Rightarrow> global_fetch pf | Some f \<Rightarrow> f)"

text \<open>
  \<open>doEmbed\<close> of the V2 generation. The result is paired with the list of HTTP calls
  the method issued, in order.
\<close>

definition doEmbed :: "platform \<Rightarrow> env \<Rightarrow> embedding_model \<Rightarrow> embed_options \<Rightarrow>
    (js_error + embed_result) \<times> http_request list" where
  "doEmbed pf environment this options =
     (case cfg_headers (emb_config this) environment of
        Inl e \<Rightarrow> (Inl e, [])
      | Inr config_headers \<Rightarrow>
          (let request = embed_request this pf options config_headers in
           case fetchFn pf (emb_config this) request of
             Inl e \<Rightarrow> (Inl e, [request])
           | Inr response \<Rightarrow>
               (if \<not> ok response then
                  (Inl (Error (''SCX embedding request failed: ''
                     @ string_of_nat (status response) @ '' '' @ resp_text response)),
                   [request])
                else case resp_json response of
                  Inl e \<Rightarrow> (Inl e, [request])
                | Inr responseBody \<Rightarrow>
                    (case embeddings_of responseBody of
                       Inl e \<Rightarrow> (Inl e, [request])
                     | Inr es \<Rightarrow>
                         (case usage_of responseBody of
                            Inl e \<Rightarrow> (Inl e, [request])
                          | Inr u \<Rightarrow>
                              (Inr \<lparr>embeddings = es, usage = u,
                                    rawResponse_headers = capture_headers response\<rparr>,
                               [request]))))))"

text \<open>
  \<open>doEmbed\<close> of the V3 generation: the same statements up to the result, which adds
  \<^verbatim>\<open>warnings\<close> and puts the headers and the parsed body under \<^verbatim>\<open>response\<close>.
\<close>

record embed_result_v3 =
  v3_embeddings :: "js_value list"
  v3_usage :: "embed_usage option"
  v3_warnings :: "string list"
  v3_response_headers :: "(string \<times> string) list"
  v3_response_body :: json

definition doEmbed_v3 :: "platform \<Rightarrow> env \<Rightarrow> embedding_model \<Rightarrow> embed_options \<Rightarrow>
    (js_error + embed_result_v3) \<times> http_request list" where
  "doEmbed_v3 pf environment this options =
     (case cfg_headers (emb_config this) environment of
        Inl e \<Rightarrow> (Inl e, [])
      | Inr config_headers \<Rightarrow>
          (let request = embed_request this pf options config_headers in
           case fetchFn pf (emb_config this) request of
             Inl e \<Rightarrow> (Inl e, [request])
           | Inr response \<Rightarrow>
               (if \<not> ok response then
                  (Inl (Error (''SCX embedding request failed: ''
                     @ string_of_nat (status response) @ '' '' @ resp_text response)),
                   [request])
                else case resp_json response of
                  Inl e \<Rightarrow> (Inl e, [request])
                | Inr responseBody \<Rightarrow>
                    (case embeddings_of responseBody of
                       Inl e \<Rightarrow> (Inl e, [request])
                     | Inr es \<Rightarrow>
                         (case usage_of responseBody of
                            Inl e \<Rightarrow> (Inl e, [request])
                          | Inr u \<Rightarrow>
                              (Inr \<lparr>v3_embeddings = es, v3_usage = u, v3_warnings = [],
                                    v3_response_headers = capture_headers response,
                                    v3_response_body = responseBody\<rparr>,
                               [request]))))))"

section \<open>The transcription translator\<close>

text \<open>
  \<^verbatim>\<open>Buffer.from(audio).toString('base64')\<close>: the standard alphabet, three bytes to four
  characters, padded with \<^verbatim>\<open>=\<close>.
\<close>

definition base64_alphabet :: string where
  "base64_alphabet = ''ABCDEFGHIJKLMNOPQRSTUVWXYZabcdefghijklmnopqrstuvwxyz0123456789+/''"

definition base64_char :: "nat \<Rightarrow> char" where
  "base64_char n = base64_alphabet ! (n mod 64)"

fun base64 :: "8 word list \<Rightarrow> string" where
  "base64 [] = []"
| "base64 [a] =
     (let x = unat a
      in [base64_char (x div 4), base64_char ((x mod 4) * 16), CHR ''='', CHR ''=''])"
| "base64 [a, b] =
     (let x = unat a; y = unat b
      in [base64_char (x div 4), base64_char ((x mod 4) * 16 + y div 16),
          base64_char ((y mod 16) * 4), CHR ''=''])"
| "base64 (a # b # c # bytes) =
     (let x = unat a; y = unat b; z = unat c
      in [base64_char (x div 4), base64_char ((x mod 4) * 16 + y div 16),
          base64_char ((y mod 16) * 4 + z div 64), base64_char (z mod 64)] @ base64 bytes)"

datatype audio = AudioBytes "8 word list" | AudioText string

record transcription_model =
  tr_modelId :: string
  tr_provider :: string
  tr_config :: model_config

definition ScxTranscriptionModel :: "string \<Rightarrow> model_config \<Rightarrow> transcription_model" where
  "ScxTranscriptionModel modelId config =
     \<lparr>tr_modelId = modelId, tr_provider = cfg_provider config, tr_config = config\<rparr>"

record transcribe_options =
  t_audio :: audio
  t_mediaType :: string
  t_abortSignal :: "nat option"
  t_headers :: "(string \<times> string option) list option"
  t_providerOptions :: "(string \<times> (string \<times> json) list) list option"

record segment =
  seg_text :: js_value
  startSecond :: js_value
  endSecond :: js_value

record transcription_result =
  res_text :: json
  res_segments :: "segment list"
  res_language :: js_value
  res_durationInSeconds :: js_value
  res_warnings :: "string list"
  res_request_body :: string
  res_timestamp :: nat
  res_modelId :: string
  res_headers :: "(string \<times> string) list"
  res_body :: json

text \<open>
  \<^verbatim>\<open>const audioData = audio instanceof Uint8Array
       ? Buffer.from(audio).toString('base64') : audio;\<close>
\<close>

definition audioData :: "audio \<Rightarrow> string" where
  "audioData a = (case a of AudioBytes bytes \<Rightarrow> base64 bytes | AudioText s \<Rightarrow> s)"

text \<open>
  \<^verbatim>\<open>const scxOptions = providerOptions?.scx;\<close>
\<close>

definition scxOptions :: "transcribe_options \<Rightarrow> (string \<times> json) list option" where
  "scxOptions options =
     (case t_providerOptions options of
        None \<Rightarrow> None
      | Some providerOptions \<Rightarrow> map_of providerOptions ''scx'')"

text \<open>
  \<^verbatim>\<open>
  const requestBody = { model: this.modelId, audio: audioData, media_type: mediaType };
  if (scxOptions) { Object.assign(requestBody, scxOptions); }\<close>
  The options bag of a provider is an object, which is truthy whenever it is there.
\<close>

definition requestBody :: "transcription_model \<Rightarrow> transcribe_options \<Rightarrow> (string \<times> json) list" where
  "requestBody this options =
     (let base = [(''model'', JString (tr_modelId this)),
                  (''audio'', JString (audioData (t_audio options))),
                  (''media_type'', JString (t_mediaType options))]
      in case scxOptions options of None \<Rightarrow> base | Some bag \<Rightarrow> obj_assign base bag)"

definition transcribe_request :: "transcription_model \<Rightarrow> platform \<Rightarrow> transcribe_options \<Rightarrow>
    (string \<times> string) list \<Rightarrow> string \<Rightarrow> http_request" where
  "transcribe_request this pf options config_headers bodyString =
     \<lparr>url = cfg_baseURL (tr_config this) @ ''/transcriptions'',
      req_method = ''POST'',
      req_headers = request_headers config_headers (t_headers options),
      req_body = bodyString,
      signal = t_abortSignal options\<rparr>"

text \<open>
  \<^verbatim>\<open>
  const segments = responseBody.segments?.map((seg) => ({
      text: seg.text, startSecond: seg.start, endSecond: seg.end })) ?? [];\<close>
\<close>

definition segment_of :: "json \<Rightarrow> js_error + segment" where
  "segment_of seg =
     (case get_prop seg ''text'' of
        Inl e \<Rightarrow> Inl e
      | Inr t \<Rightarrow>
          (case get_prop seg ''start'' of
             Inl e \<Rightarrow> Inl e
           | Inr s \<Rightarrow>
               (case get_prop seg ''end'' of
                  Inl e \<Rightarrow> Inl e
                | Inr e \<Rightarrow> Inr \<lparr>seg_text = t, startSecond = s, endSecond = e\<rparr>)))"

definition segments_of :: "json \<Rightarrow> js_error + segment list" where
  "segments_of responseBody =
     (case get_prop responseBody ''segments'' of
        Inl e \<Rightarrow> Inl e
      | Inr segs \<Rightarrow>
          (case optional_map segment_of segs of
             Inl e \<Rightarrow> Inl e
           | Inr None \<Rightarrow> Inr []
           | Inr (Some ss) \<Rightarrow> Inr ss))"

text \<open>
  \<open>doGenerate\<close>; the V1 and the V3 generation of the class have the same body. As
  for \<open>doEmbed\<close>, the result is paired with the HTTP calls issued.
\<close>

definition doGenerate :: "platform \<Rightarrow> env \<Rightarrow> transcription_model \<Rightarrow> transcribe_options \<Rightarrow>
    (js_error + transcription_result) \<times> http_request list" where
  "doGenerate pf environment this options =
     (let bodyString = json_stringify pf (JObject (requestBody this options)) in
      case cfg_headers (tr_config this) environment of
        Inl e \<Rightarrow> (Inl e, [])
      | Inr config_headers \<Rightarrow>
          (let request = transcribe_request this pf options config_headers bodyString in
           case fetchFn pf (tr_config this) request of
             Inl e \<Rightarrow> (Inl e, [request])
           | Inr response \<Rightarrow>
               (if \<not> ok response then
                  (Inl (Error (''SCX transcription request failed: ''
                     @ string_of_nat (status response) @ '' '' @ resp_text response)),
                   [request])
                else case resp_json response of
                  Inl e \<Rightarrow> (Inl e, [request])
                | Inr responseBody \<Rightarrow>
                    (case segments_of responseBody of
                       Inl e \<Rightarrow> (Inl e, [request])
                     | Inr segs \<Rightarrow>
                         (case get_prop responseBody ''text'' of
                            Inl e \<Rightarrow> (Inl e, [request])
                          | Inr t \<Rightarrow>
                         (case get_prop responseBody ''language'' of
                            Inl e \<Rightarrow> (Inl e, [request])
                          | Inr l \<Rightarrow>
                         (case get_prop responseBody ''duration'' of
                            Inl e \<Rightarrow> (Inl e, [request])
                          | Inr d \<Rightarrow>
                              (Inr \<lparr>res_text = or_else t (JString []),
                                    res_segments = segs,
                                    res_language = l,
                                    res_durationInSeconds = d,
                                    res_warnings = [],
                                    res_request_body = bodyString,
                                    res_timestamp = date_now pf,
                                    res_modelId = tr_modelId this,
                                    res_headers = capture_headers response,
                                    res_body = responseBody\<rparr>,
                               [request]))))))))"

section \<open>The provider\<close>

record provider_settings =
  s_baseURL :: "string option"
  s_apiKey :: "string option"
  s_headers :: "(string \<times> string) list option"
  s_fetch :: "fetch_fn option"

text \<open>
  Modelled from the spec: \<^verbatim>\<open>loadApiKey\<close> of the package \<^verbatim>\<open>@ai-sdk/provider-utils\<close> is
  not in the repository. The spec describes it as "a function that yields the API key
  string, falling back to reading environment variable \<^verbatim>\<open>SCX_API_KEY\<close>, failing if neither
  is configured".
\<close>

definition loadApiKey :: "string option \<Rightarrow> string \<Rightarrow> string \<Rightarrow> env \<Rightarrow> js_error + string" where
  "loadApiKey apiKey environmentVariableName description environment =
     (case apiKey of
        Some k \<Rightarrow> Inr k
      | None \<Rightarrow>
          (case environment environmentVariableName of
             Some k \<Rightarrow> Inr k
           | None \<Rightarrow> Inl (LoadAPIKeyError (description @ '' API key is missing. Pass it using ''
               @ ''the apiKey parameter or the '' @ environmentVariableName
               @ '' environment variable.''))))"

text \<open>
  Modelled from the spec: \<^verbatim>\<open>withoutTrailingSlash\<close> of the same package is not in the
  repository. The spec says of the configuration that the base URL has no trailing slash;
  the model removes a final \<^verbatim>\<open>/\<close> and leaves an absent URL absent.
\<close>

definition withoutTrailingSlash :: "string option \<Rightarrow> string option" where
  "withoutTrailingSlash u =
     (case u of
        None \<Rightarrow> None
      | Some s \<Rightarrow> Some (if s \<noteq> [] \<and> last s = CHR ''/'' then butlast s else s))"

text \<open>
  Modelled from the spec: \<^verbatim>\<open>createOpenAICompatible\<close> of the package
  \<^verbatim>\<open>@ai-sdk/openai-compatible\<close> is not in the repository. The spec describes it as "an
  external OpenAI-compatible provider factory, given base URL/key/headers/transport,
  yielding a chat-model object"; the model keeps the settings it was given and hands them
  to every chat model it yields.
\<close>

record openai_compatible =
  oc_name :: string
  oc_baseURL :: string
  oc_apiKey :: string
  oc_headers :: "(string \<times> string) list option"
  oc_fetch :: "fetch_fn option"

record chat_model =
  chat_modelId :: string
  chat_settings :: openai_compatible

definition chatModel :: "openai_compatible \<Rightarrow> string \<Rightarrow> chat_model" where
  "chatModel delegate modelId = \<lparr>chat_modelId = modelId, chat_settings = delegate\<rparr>"

text \<open>
  \<^verbatim>\<open>
  const getApiKey = () => loadApiKey({ apiKey: options.apiKey,
      environmentVariableName: 'SCX_API_KEY', description: 'SCX' });
  const getHeaders = () => ({ Authorization: `Bearer ${getApiKey()}`, ...options.headers });\<close>
  Both are closures over \<open>options\<close>; they read the environment when they are called.
\<close>

definition getApiKey :: "provider_settings \<Rightarrow> env \<Rightarrow> js_error + string" where
  "getApiKey options environment =
     loadApiKey (s_apiKey options) ''SCX_API_KEY'' ''SCX'' environment"

definition getHeaders :: "provider_settings \<Rightarrow> env \<Rightarrow> js_error + (string \<times> string) list" where
  "getHeaders options environment =
     (case getApiKey options environment of
        Inl e \<Rightarrow> Inl e
      | Inr k \<Rightarrow>
          Inr (obj_assign [(''Authorization'', ''Bearer '' @ k)]
                 (case s_headers options of None \<Rightarrow> [] | Some hs \<Rightarrow> hs)))"

text \<open>
  The provider object: what the closures of \<open>createScx\<close> capture. \<open>createScx\<close>
  evaluates \<^verbatim>\<open>apiKey: getApiKey()\<close> while it builds the argument of
  \<^verbatim>\<open>createOpenAICompatible\<close>, with the environment of that moment.
\<close>

record scx_provider =
  p_baseURL :: string
  p_options :: provider_settings
  p_openaiCompatible :: openai_compatible

definition createScx :: "provider_settings \<Rightarrow> env \<Rightarrow> js_error + scx_provider" where
  "createScx options environment =
     (let baseURL = (case withoutTrailingSlash (s_baseURL options) of
                       None \<Rightarrow> ''https://api.scx.ai/v1''
                     | Some u \<Rightarrow> u)
      in case getApiKey options environment of
           Inl e \<Rightarrow> Inl e
         | Inr k \<Rightarrow>
             Inr \<lparr>p_baseURL = baseURL,
                  p_options = options,
                  p_openaiCompatible =
                    \<lparr>oc_name = ''scx'', oc_baseURL = baseURL, oc_apiKey = k,
                     oc_headers = s_headers options, oc_fetch = s_fetch options\<rparr>\<rparr>)"

text \<open>
  What a call of the provider's chat entry points does besides returning: it may ask the
  delegate for a chat model, and it may call the transport. Each entry point is paired
  with the list of these events, in the order they happen, as the translators are paired
  with their HTTP calls.
  \<^verbatim>\<open>
  const createChatModel = (modelId) => { return openaiCompatible.chatModel(modelId); };\<close>
\<close>

datatype provider_event =
    ChatModelCreated string
  | HttpCall http_request

fun http_calls :: "provider_event list \<Rightarrow> http_request list" where
  "http_calls [] = []"
| "http_calls (HttpCall request # events) = request # http_calls events"
| "http_calls (ChatModelCreated modelId # events) = http_calls events"

fun chat_models_created :: "provider_event list \<Rightarrow> string list" where
  "chat_models_created [] = []"
| "chat_models_created (ChatModelCreated modelId # events) = modelId # chat_models_created events"
| "chat_models_created (HttpCall request # events) = chat_models_created events"

definition createChatModel :: "scx_provider \<Rightarrow> string \<Rightarrow> chat_model \<times> provider_event list" where
  "createChatModel p modelId =
     (chatModel (p_openaiCompatible p) modelId, [ChatModelCreated modelId])"

definition createEmbeddingModel :: "scx_provider \<Rightarrow> string \<Rightarrow> embedding_model" where
  "createEmbeddingModel p modelId =
     ScxEmbeddingModel modelId
       \<lparr>cfg_provider = ''scx.embedding'', cfg_baseURL = p_baseURL p,
        cfg_headers = getHeaders (p_options p), cfg_fetch = s_fetch (p_options p)\<rparr>"

definition createTranscriptionModel :: "scx_provider \<Rightarrow> string \<Rightarrow> transcription_model" where
  "createTranscriptionModel p modelId =
     ScxTranscriptionModel modelId
       \<lparr>cfg_provider = ''scx.transcription'', cfg_baseURL = p_baseURL p,
        cfg_headers = getHeaders (p_options p), cfg_fetch = s_fetch (p_options p)\<rparr>"

text \<open>
  The provider called as a function. \<open>new_target\<close> says whether the call was made with
  \<^verbatim>\<open>new\<close>:
  \<^verbatim>\<open>
  const provider = function (modelId) {
    if (new.target) {
      throw new Error('The SCX model function cannot be called with the new keyword.');
    }
    return createChatModel(modelId);
  };\<close>
  The test of \<^verbatim>\<open>new.target\<close> is the first statement: when it throws, nothing has
  happened yet.
\<close>

definition provider :: "scx_provider \<Rightarrow> bool \<Rightarrow> string \<Rightarrow>
    (js_error + chat_model) \<times> provider_event list" where
  "provider p new_target modelId =
     (if new_target
      then (Inl (Error ''The SCX model function cannot be called with the new keyword.''), [])
      else (case createChatModel p modelId of (model, events) \<Rightarrow> (Inr model, events)))"

section \<open>Reading the wire shapes\<close>

text \<open>
  The own property of a JSON value under a name, \<^verbatim>\<open>undefined\<close> when the value is not an
  object or has no such property: what \<open>get_prop\<close> returns on every value but
  \<^verbatim>\<open>null\<close>. The theorems below use it to say which field of the response a result
  field comes from.
\<close>

definition own_prop :: "json \<Rightarrow> string \<Rightarrow> js_value" where
  "own_prop v name = (case v of JObject kvs \<Rightarrow> map_of kvs name | _ \<Rightarrow> None)"

text \<open>
  The items an embedding response carries: the elements of a bare array, or the elements
  of the \<^verbatim>\<open>data\<close> array of any other value, none when there is no such array.
\<close>

definition response_items :: "json \<Rightarrow> json list" where
  "response_items body =
     (case body of
        JArray items \<Rightarrow> items
      | _ \<Rightarrow> (case own_prop body ''data'' of Some (JArray items) \<Rightarrow> items | _ \<Rightarrow> []))"

text \<open>The result segment that the fields of one response segment give.\<close>

definition segment_fields :: "json \<Rightarrow> segment" where
  "segment_fields seg =
     \<lparr>seg_text = own_prop seg ''text'', startSecond = own_prop seg ''start'',
      endSecond = own_prop seg ''end''\<rparr>"

text \<open>
  The header precedence in the words of the specification: a per-call header with a
  defined value comes first, then the configuration's header of that name, then the
  fixed \<^verbatim>\<open>Content-Type\<close>; a per-call header whose value is \<^verbatim>\<open>undefined\<close> counts as not
  given.
\<close>

definition headers_by_precedence ::
  "(string \<times> string) list \<Rightarrow> (string \<times> string option) list option \<Rightarrow> string \<Rightarrow> string option" where
  "headers_by_precedence config_headers additionalHeaders name =
     (case (case additionalHeaders of None \<Rightarrow> None | Some entries \<Rightarrow> map_of entries name) of
        Some (Some v) \<Rightarrow> Some v
      | _ \<Rightarrow>
          (case map_of config_headers name of
             Some v \<Rightarrow> Some v
           | None \<Rightarrow> if name = ''Content-Type'' then Some ''application/json'' else None))"

text \<open>An object that may be absent names each of its properties once.\<close>

definition distinct_names :: "(string \<times> 'v) list option \<Rightarrow> bool" where
  "distinct_names obj = (case obj of None \<Rightarrow> True | Some entries \<Rightarrow> distinct (map fst entries))"

section \<open>Example inputs\<close>

text \<open>
  A provider with a configured key, the two models it creates, and a platform whose
  transport answers every call with one given outcome. The serializer of the example
  platform writes one fixed text, which stands for the serialized body.
\<close>

definition example_settings :: provider_settings where
  "example_settings =
     \<lparr>s_baseURL = None, s_apiKey = Some ''sk-test'', s_headers = None, s_fetch = None\<rparr>"

definition example_provider :: scx_provider where
  "example_provider =
     \<lparr>p_baseURL = ''https://api.scx.ai/v1'',
      p_options = example_settings,
      p_openaiCompatible =
        \<lparr>oc_name = ''scx'', oc_baseURL = ''https://api.scx.ai/v1'', oc_apiKey = ''sk-test'',
         oc_headers = None, oc_fetch = None\<rparr>\<rparr>"

definition example_embedding_model :: embedding_model where
  "example_embedding_model = createEmbeddingModel example_provider ''E5-Mistral-7B-Instruct''"

definition example_transcription_model :: transcription_model where
  "example_transcription_model = createTranscriptionModel example_provider ''whisper-large-v3''"

definition example_platform :: "js_error + http_response \<Rightarrow> platform" where
  "example_platform reply =
     \<lparr>global_fetch = (\<lambda>request. reply), json_stringify = (\<lambda>body. ''{}''), date_now = 0\<rparr>"

definition ok_response :: "json \<Rightarrow> http_response" where
  "ok_response body =
     \<lparr>status = 200, resp_headers = [(''content-type'', ''application/json'')],
      resp_text = [], resp_json = Inr body\<rparr>"

definition error_response :: "nat \<Rightarrow> string \<Rightarrow> http_response" where
  "error_response code body_text =
     \<lparr>status = code, resp_headers = [], resp_text = body_text,
      resp_json = Inl (SyntaxError ''Unexpected token'')\<rparr>"

section \<open>Auxiliary facts\<close>

subsection \<open>Values and objects\<close>

lemma get_prop_own: "v \<noteq> JNull \<Longrightarrow> get_prop v name = Inr (own_prop v name)"
  by (cases v) (simp_all add: own_prop_def)

lemma get_prop_Inr: "get_prop v name = Inr x \<Longrightarrow> v \<noteq> JNull \<and> x = own_prop v name"
  by (cases v) (auto simp: own_prop_def)

lemma map_throwing_all:
  "(\<And>x. x \<in> set xs \<Longrightarrow> f x = Inr (g x)) \<Longrightarrow> map_throwing f xs = Inr (map g xs)"
  by (induction xs) simp_all

lemma map_throwing_Inr:
  "map_throwing f xs = Inr ys \<Longrightarrow>
   length ys = length xs \<and> (\<forall>i < length xs. f (xs ! i) = Inr (ys ! i))"
proof (induction xs arbitrary: ys)
  case Nil
  then show ?case by simp
next
  case (Cons x xs)
  then show ?case
    by (auto split: sum.splits simp: nth_Cons split: nat.splits)
qed

lemma map_add_upd_split: "m(k \<mapsto> v) ++ n = m ++ ([k \<mapsto> v] ++ n)"
  by (rule ext) (simp add: map_add_def split: option.splits)

lemma map_of_obj_assign:
  "map_of (obj_assign base src) = map_of base ++ map_of (rev src)"
  unfolding obj_assign_def
proof (induction src arbitrary: base)
  case Nil
  then show ?case by simp
next
  case (Cons kv src)
  obtain k v where kv: "kv = (k, v)" by (cases kv)
  have "map_of (fold (\<lambda>(key, v). AList.update key v) (kv # src) base)
        = map_of (AList.update k v base) ++ map_of (rev src)"
    by (simp add: kv Cons.IH)
  also have "\<dots> = (map_of base)(k \<mapsto> v) ++ map_of (rev src)"
    by (simp only: update_conv')
  also have "\<dots> = map_of base ++ ([k \<mapsto> v] ++ map_of (rev src))"
    by (rule map_add_upd_split)
  also have "\<dots> = map_of base ++ map_of (rev (kv # src))"
    by (simp add: kv)
  finally show ?case .
qed

lemma map_of_rev_distinct: "distinct (map fst xs) \<Longrightarrow> map_of (rev xs) = map_of xs"
proof (induction xs)
  case Nil
  then show ?case by simp
next
  case (Cons kv xs)
  obtain k v where kv: "kv = (k, v)" by (cases kv)
  from Cons.prems have fresh: "map_of xs k = None"
    by (simp add: kv map_of_eq_None_iff)
  from Cons have IH: "map_of (rev xs) = map_of xs" by simp
  have "map_of (rev (kv # xs)) = [k \<mapsto> v] ++ map_of xs"
    by (simp add: kv IH)
  also have "\<dots> = (map_of xs)(k \<mapsto> v)"
    using fresh by (intro ext) (simp add: map_add_def split: option.splits)
  finally show ?case by (simp add: kv)
qed

subsection \<open>Request headers\<close>

lemma fold_defined_headers:
  "distinct (map fst entries) \<Longrightarrow>
   map_of (fold (\<lambda>(key, v) hs. case v of None \<Rightarrow> hs | Some s \<Rightarrow> AList.update key s hs)
             entries headers) name =
     (case map_of entries name of Some (Some v) \<Rightarrow> Some v | _ \<Rightarrow> map_of headers name)"
proof (induction entries arbitrary: headers)
  case Nil
  then show ?case by simp
next
  case (Cons kv entries)
  obtain k v where kv: "kv = (k, v)" by (cases kv)
  from Cons.prems have fresh: "map_of entries k = None" and d: "distinct (map fst entries)"
    by (simp_all add: kv map_of_eq_None_iff)
  show ?case
  proof (cases v)
    case None
    with kv fresh Cons.IH [OF d] show ?thesis by (auto split: option.splits)
  next
    case (Some s)
    with kv fresh Cons.IH [OF d] show ?thesis
      by (auto simp: update_conv' split: option.splits)
  qed
qed

lemma request_headers_lookup:
  assumes "distinct (map fst config_headers)" and "distinct_names additionalHeaders"
  shows "map_of (request_headers config_headers additionalHeaders) name =
           headers_by_precedence config_headers additionalHeaders name"
proof -
  have base: "map_of (obj_assign [(''Content-Type'', ''application/json'')] config_headers) name =
      (case map_of config_headers name of
         Some v \<Rightarrow> Some v
       | None \<Rightarrow> if name = ''Content-Type'' then Some ''application/json'' else None)"
    using assms(1)
    by (simp add: map_of_obj_assign map_of_rev_distinct map_add_def split: option.splits)
  show ?thesis
  proof (cases additionalHeaders)
    case None
    with base show ?thesis
      by (simp add: request_headers_def headers_by_precedence_def)
  next
    case (Some entries)
    with assms(2) have "distinct (map fst entries)" by (simp add: distinct_names_def)
    from fold_defined_headers [OF this]
    have "map_of (request_headers config_headers additionalHeaders) name =
        (case map_of entries name of
           Some (Some v) \<Rightarrow> Some v
         | _ \<Rightarrow> map_of (obj_assign [(''Content-Type'', ''application/json'')] config_headers) name)"
      by (simp add: request_headers_def Some)
    then show ?thesis
      unfolding base by (simp add: headers_by_precedence_def Some)
  qed
qed

subsection \<open>The embedding translator\<close>

lemma embeddings_of_items:
  "JNull \<notin> set items \<Longrightarrow>
   map_throwing (\<lambda>d. get_prop d ''embedding'') items =
     Inr (map (\<lambda>d. own_prop d ''embedding'') items)"
  by (rule map_throwing_all) (metis get_prop_own)

lemma embeddings_of_Inr:
  assumes "embeddings_of body = Inr es"
  shows "length es = length (response_items body)
     \<and> (\<forall>i < length (response_items body).
           es ! i = own_prop (response_items body ! i) ''embedding'')"
proof -
  have main: "map_throwing (\<lambda>d. get_prop d ''embedding'') items = Inr es \<Longrightarrow>
      length es = length items \<and> (\<forall>i < length items. es ! i = own_prop (items ! i) ''embedding'')"
    for items
    using map_throwing_Inr [of "\<lambda>d. get_prop d ''embedding''" items es]
    by (auto dest!: get_prop_Inr)
  show ?thesis
  proof (cases body)
    case (JArray items)
    with assms main show ?thesis
      by (simp add: embeddings_of_def response_items_def)
  next
    case JNull
    with assms show ?thesis by (simp add: embeddings_of_def)
  next
    case (JObject kvs)
    show ?thesis
    proof (cases "map_of kvs ''data''")
      case None
      with assms JObject show ?thesis
        by (auto simp: embeddings_of_def response_items_def own_prop_def)
    next
      case (Some d)
      with assms JObject main show ?thesis
        by (cases d) (auto simp: embeddings_of_def response_items_def own_prop_def
            split: sum.splits)
    qed
  qed (use assms in \<open>auto simp: embeddings_of_def response_items_def own_prop_def\<close>)
qed

lemma usage_of_object:
  "usage_of (JObject kvs) =
     Inr (case map_of kvs ''usage'' of
            None \<Rightarrow> None
          | Some u \<Rightarrow>
              if truthy (Some u) then
                Some \<lparr>tokens =
                  (if nullish (own_prop u ''total_tokens'')
                   then or_else (own_prop u ''prompt_tokens'') (JNumber 0)
                   else or_else (own_prop u ''total_tokens'') (JNumber 0))\<rparr>
              else None)"
proof (cases "map_of kvs ''usage''")
  case None
  then show ?thesis by (simp add: usage_of_def)
next
  case (Some u)
  show ?thesis
  proof (cases "truthy (Some u)")
    case False
    with Some show ?thesis by (simp add: usage_of_def)
  next
    case True
    then have "u \<noteq> JNull" by auto
    with Some True show ?thesis by (simp add: usage_of_def get_prop_own)
  qed
qed

lemma usage_of_total: "body \<noteq> JNull \<Longrightarrow> \<exists>u. usage_of body = Inr u"
  by (cases body) (simp_all add: usage_of_object, simp_all add: usage_of_def)

lemma doEmbed_success:
  assumes "cfg_headers (emb_config this) environment = Inr hs"
    and "fetchFn pf (emb_config this) (embed_request this pf options hs) = Inr response"
    and "ok response"
    and "resp_json response = Inr body"
  shows "doEmbed pf environment this options =
           ((case embeddings_of body of
               Inl e \<Rightarrow> Inl e
             | Inr es \<Rightarrow>
                 (case usage_of body of
                    Inl e \<Rightarrow> Inl e
                  | Inr u \<Rightarrow> Inr \<lparr>embeddings = es, usage = u,
                                  rawResponse_headers = capture_headers response\<rparr>)),
            [embed_request this pf options hs])"
  using assms by (simp add: doEmbed_def split: sum.splits)

lemma doEmbed_Inr_cases:
  assumes "fst (doEmbed pf environment this options) = Inr r"
  obtains hs response body where
    "cfg_headers (emb_config this) environment = Inr hs"
    "fetchFn pf (emb_config this) (embed_request this pf options hs) = Inr response"
    "ok response" "resp_json response = Inr body"
    "embeddings_of body = Inr (embeddings r)"
    "usage_of body = Inr (usage r)"
    "rawResponse_headers r = capture_headers response"
    "snd (doEmbed pf environment this options) = [embed_request this pf options hs]"
  using assms
  by (auto simp: doEmbed_def Let_def split: sum.splits if_splits)

lemma doEmbed_trace:
  "cfg_headers (emb_config this) environment = Inr hs \<Longrightarrow>
   snd (doEmbed pf environment this options) = [embed_request this pf options hs]"
  by (simp add: doEmbed_def Let_def split: sum.splits)

subsection \<open>The transcription translator\<close>

lemma segment_of_own: "seg \<noteq> JNull \<Longrightarrow> segment_of seg = Inr (segment_fields seg)"
  by (simp add: segment_of_def segment_fields_def get_prop_own)

lemma segments_of_array:
  assumes "map_of kvs ''segments'' = Some (JArray segs)" and "JNull \<notin> set segs"
  shows "segments_of (JObject kvs) = Inr (map segment_fields segs)"
proof -
  have "map_throwing segment_of segs = Inr (map segment_fields segs)"
    using assms(2) by (intro map_throwing_all segment_of_own) auto
  with assms(1) show ?thesis by (simp add: segments_of_def)
qed

lemma segments_of_absent:
  "map_of kvs ''segments'' = None \<Longrightarrow> segments_of (JObject kvs) = Inr []"
  by (simp add: segments_of_def)

lemma doGenerate_success:
  assumes "cfg_headers (tr_config this) environment = Inr hs"
    and "fetchFn pf (tr_config this) (transcribe_request this pf options hs
           (json_stringify pf (JObject (requestBody this options)))) = Inr response"
    and "ok response"
    and "resp_json response = Inr (JObject kvs)"
    and "segments_of (JObject kvs) = Inr segs"
  shows "fst (doGenerate pf environment this options) =
           Inr \<lparr>res_text = or_else (map_of kvs ''text'') (JString []),
                res_segments = segs,
                res_language = map_of kvs ''language'',
                res_durationInSeconds = map_of kvs ''duration'',
                res_warnings = [],
                res_request_body = json_stringify pf (JObject (requestBody this options)),
                res_timestamp = date_now pf,
                res_modelId = tr_modelId this,
                res_headers = capture_headers response,
                res_body = JObject kvs\<rparr>"
  using assms by (simp add: doGenerate_def Let_def)

lemma doGenerate_trace:
  "cfg_headers (tr_config this) environment = Inr hs \<Longrightarrow>
   snd (doGenerate pf environment this options) =
     [transcribe_request this pf options hs
        (json_stringify pf (JObject (requestBody this options)))]"
  by (simp add: doGenerate_def Let_def split: sum.splits)

lemma doGenerate_Inr_body:
  assumes "fst (doGenerate pf environment this options) = Inr r"
  shows "\<exists>request. snd (doGenerate pf environment this options) = [request]
     \<and> req_body request = json_stringify pf (JObject (requestBody this options))
     \<and> res_request_body r = req_body request"
  using assms
  by (auto simp: doGenerate_def Let_def transcribe_request_def split: sum.splits if_splits)

lemma requestBody_lookup:
  assumes "distinct_names (scxOptions options)"
  shows "map_of (requestBody this options) name =
     (case (case scxOptions options of None \<Rightarrow> None | Some bag \<Rightarrow> map_of bag name) of
        Some v \<Rightarrow> Some v
      | None \<Rightarrow>
          map_of [(''model'', JString (tr_modelId this)),
                  (''audio'', JString (audioData (t_audio options))),
                  (''media_type'', JString (t_mediaType options))] name)"
proof (cases "scxOptions options")
  case None
  then show ?thesis
    by (simp add: requestBody_def Let_def)
next
  case (Some bag)
  with assms have "distinct (map fst bag)" by (simp add: distinct_names_def)
  then have "map_of (rev bag) = map_of bag" by (rule map_of_rev_distinct)
  with Some show ?thesis
    by (simp add: requestBody_def Let_def map_of_obj_assign map_add_def
        split: option.splits)
qed

subsection \<open>The example inputs\<close>

lemma createScx_example: "createScx example_settings Map.empty = Inr example_provider"
  by (simp add: createScx_def example_settings_def example_provider_def getApiKey_def
      loadApiKey_def withoutTrailingSlash_def Let_def)

lemma example_embedding_headers:
  "cfg_headers (emb_config example_embedding_model) environment =
     Inr [(''Authorization'', ''Bearer sk-test'')]"
  by (simp add: example_embedding_model_def createEmbeddingModel_def ScxEmbeddingModel_def
      example_provider_def example_settings_def getHeaders_def getApiKey_def loadApiKey_def
      obj_assign_def)

lemma example_embedding_fetch:
  "fetchFn (example_platform reply) (emb_config example_embedding_model) request = reply"
  by (simp add: fetchFn_def example_platform_def example_embedding_model_def
      createEmbeddingModel_def ScxEmbeddingModel_def example_provider_def example_settings_def)

lemma example_transcription_headers:
  "cfg_headers (tr_config example_transcription_model) environment =
     Inr [(''Authorization'', ''Bearer sk-test'')]"
  by (simp add: example_transcription_model_def createTranscriptionModel_def
      ScxTranscriptionModel_def example_provider_def example_settings_def getHeaders_def
      getApiKey_def loadApiKey_def obj_assign_def)

lemma example_transcription_fetch:
  "fetchFn (example_platform reply) (tr_config example_transcription_model) request = reply"
  by (simp add: fetchFn_def example_platform_def example_transcription_model_def
      createTranscriptionModel_def ScxTranscriptionModel_def example_provider_def
      example_settings_def)

text \<open>
  The models of a provider hold the closure \<open>getHeaders\<close>, not a key: the headers of a
  request are those of the environment at the time of the request, so a key that was
  rotated after the provider was built is the one an embedding or a transcription request
  sends.
\<close>

lemma models_resolve_key_per_request:
  "cfg_headers (emb_config (createEmbeddingModel p modelId)) environment
     = getHeaders (p_options p) environment
   \<and> cfg_headers (tr_config (createTranscriptionModel p modelId)) environment
     = getHeaders (p_options p) environment"
  by (simp add: createEmbeddingModel_def createTranscriptionModel_def ScxEmbeddingModel_def
      ScxTranscriptionModel_def)

lemma getHeaders_rotated_key:
  "getHeaders \<lparr>s_baseURL = None, s_apiKey = None, s_headers = None, s_fetch = None\<rparr>
     [''SCX_API_KEY'' \<mapsto> ''key-2''] = Inr [(''Authorization'', ''Bearer key-2'')]
   \<and> getHeaders \<lparr>s_baseURL = None, s_apiKey = None, s_headers = None, s_fetch = None\<rparr>
     Map.empty = Inl (LoadAPIKeyError (''SCX API key is missing. Pass it using the apiKey ''
         @ ''parameter or the SCX_API_KEY environment variable.''))"
  by (simp add: getHeaders_def getApiKey_def loadApiKey_def obj_assign_def)

lemma ok_ok_response: "ok (ok_response body)"
  by (simp add: ok_def ok_response_def)

lemma resp_json_ok_response: "resp_json (ok_response body) = Inr body"
  by (simp add: ok_response_def)

lemma capture_headers_ok_response:
  "capture_headers (ok_response body) = [(''content-type'', ''application/json'')]"
  by (simp add: capture_headers_def obj_assign_def ok_response_def)

lemma example_doEmbed:
  "fst (doEmbed (example_platform (Inr (ok_response body))) environment
          example_embedding_model options) =
     (case embeddings_of body of
        Inl e \<Rightarrow> Inl e
      | Inr es \<Rightarrow>
          (case usage_of body of
             Inl e \<Rightarrow> Inl e
           | Inr u \<Rightarrow> Inr \<lparr>embeddings = es, usage = u,
                  rawResponse_headers = [(''content-type'', ''application/json'')]\<rparr>))"
  by (simp add: doEmbed_success [OF example_embedding_headers example_embedding_fetch
        ok_ok_response resp_json_ok_response] capture_headers_ok_response
      split: sum.splits)

lemma string_of_nat_429: "string_of_nat 429 = ''429''"
  by code_simp

section \<open>The provider: construction and the chat entry point\<close>

text \<open>
  C1. The claim says that constructing the provider succeeds when no API key can be
  resolved, and that every model family resolves the key on each request.
  \<open>createScx\<close> evaluates \<^verbatim>\<open>getApiKey()\<close> for the chat delegate while it runs: with
  no \<^verbatim>\<open>apiKey\<close> setting and no \<^verbatim>\<open>SCX_API_KEY\<close> in the environment the construction
  itself fails, and with a key in the environment the chat delegate keeps the key of the
  moment of construction.
\<close>

theorem createScx_resolves_key_at_construction:
  "createScx \<lparr>s_baseURL = None, s_apiKey = None, s_headers = None, s_fetch = None\<rparr> Map.empty
     = Inl (LoadAPIKeyError (''SCX API key is missing. Pass it using the apiKey parameter ''
         @ ''or the SCX_API_KEY environment variable.''))
   \<and> map_sum id (\<lambda>p. oc_apiKey (p_openaiCompatible p))
       (createScx \<lparr>s_baseURL = None, s_apiKey = None, s_headers = None, s_fetch = None\<rparr>
          [''SCX_API_KEY'' \<mapsto> ''key-1''])
     = Inr ''key-1''"
  by (simp add: createScx_def getApiKey_def loadApiKey_def withoutTrailingSlash_def Let_def)

text \<open>
  C9. Whatever the model identifier, calling the provider function with \<^verbatim>\<open>new\<close> fails
  with the explicit error and its list of events is empty: the failure comes before any
  chat model is created and before any call of the transport. The plain call returns the
  chat model of that identifier on the provider's delegate, the one the \<^verbatim>\<open>chat\<close>
  accessor returns, after exactly one request to the delegate for a chat model, and it
  does not call the transport either.
\<close>

theorem provider_new_fails:
  "provider p True modelId =
     (Inl (Error ''The SCX model function cannot be called with the new keyword.''), [])
   \<and> chat_models_created (snd (provider p True modelId)) = []
   \<and> http_calls (snd (provider p True modelId)) = []
   \<and> provider p False modelId =
       (Inr \<lparr>chat_modelId = modelId, chat_settings = p_openaiCompatible p\<rparr>,
        [ChatModelCreated modelId])
   \<and> fst (provider p False modelId) = Inr (fst (createChatModel p modelId))
   \<and> chat_models_created (snd (provider p False modelId)) = [modelId]
   \<and> http_calls (snd (provider p False modelId)) = []"
  by (simp add: provider_def createChatModel_def chatModel_def)

section \<open>The embedding translator: results\<close>

text \<open>
  C2, as stated: a successful call on \<open>N\<close> inputs, \<open>N\<close> between 1 and
  \<open>maxEmbeddingsPerCall\<close>, returns exactly \<open>N\<close> vectors. \<open>doEmbed\<close> never
  compares the response with \<open>values\<close>: for one input and a response that is the empty
  array the call succeeds with no vector at all.
\<close>

theorem doEmbed_count_counterexample:
  "fst (doEmbed (example_platform (Inr (ok_response (JArray [])))) Map.empty
          example_embedding_model
          \<lparr>e_values = [''hello''], e_abortSignal = None, e_headers = None\<rparr>)
     = Inr \<lparr>embeddings = [], usage = None,
            rawResponse_headers = [(''content-type'', ''application/json'')]\<rparr>
   \<and> length (embeddings \<lparr>embeddings = [], usage = None,
            rawResponse_headers = [(''content-type'', ''application/json'')]\<rparr>)
     \<noteq> length (e_values \<lparr>e_values = [''hello''], e_abortSignal = None, e_headers = None\<rparr>)
   \<and> 0 < length (e_values \<lparr>e_values = [''hello''], e_abortSignal = None, e_headers = None\<rparr>)
   \<and> length (e_values \<lparr>e_values = [''hello''], e_abortSignal = None, e_headers = None\<rparr>)
     \<le> maxEmbeddingsPerCall"
  by (simp add: example_doEmbed embeddings_of_def usage_of_def maxEmbeddingsPerCall_def)

text \<open>
  C2, amended: a successful call returns exactly as many vectors as the response carries
  items, in the order of the response, the vector at position \<open>i\<close> being the
  \<^verbatim>\<open>embedding\<close> property of the item at position \<open>i\<close>. The number of vectors is the
  number of inputs when the remote API answers with one item per input.
\<close>

theorem doEmbed_vectors_follow_response:
  assumes "fst (doEmbed pf environment this options) = Inr r"
  shows "\<exists>hs response body.
           cfg_headers (emb_config this) environment = Inr hs
         \<and> fetchFn pf (emb_config this) (embed_request this pf options hs) = Inr response
         \<and> resp_json response = Inr body
         \<and> length (embeddings r) = length (response_items body)
         \<and> (\<forall>i < length (response_items body).
               embeddings r ! i = own_prop (response_items body ! i) ''embedding'')"
proof -
  from assms obtain hs response body where
    "cfg_headers (emb_config this) environment = Inr hs"
    "fetchFn pf (emb_config this) (embed_request this pf options hs) = Inr response"
    "resp_json response = Inr body"
    "embeddings_of body = Inr (embeddings r)"
    by (rule doEmbed_Inr_cases)
  with embeddings_of_Inr [of body "embeddings r"] show ?thesis by blast
qed

theorem doEmbed_vectors_follow_response_witness:
  "\<exists>hs response body.
     cfg_headers (emb_config example_embedding_model) Map.empty = Inr hs
   \<and> fetchFn (example_platform (Inr (ok_response
         (JArray [JObject [(''embedding'', JArray [JNumber 1, JNumber 2])]]))))
       (emb_config example_embedding_model)
       (embed_request example_embedding_model
          (example_platform (Inr (ok_response
             (JArray [JObject [(''embedding'', JArray [JNumber 1, JNumber 2])]]))))
          \<lparr>e_values = [''hello''], e_abortSignal = None, e_headers = None\<rparr> hs) = Inr response
   \<and> resp_json response = Inr body
   \<and> length [Some (JArray [JNumber 1, JNumber 2])] = length (response_items body)
   \<and> (\<forall>i < length (response_items body).
         [Some (JArray [JNumber 1, JNumber 2])] ! i = own_prop (response_items body ! i) ''embedding'')"
proof -
  have "fst (doEmbed (example_platform (Inr (ok_response
            (JArray [JObject [(''embedding'', JArray [JNumber 1, JNumber 2])]]))))
          Map.empty example_embedding_model
          \<lparr>e_values = [''hello''], e_abortSignal = None, e_headers = None\<rparr>)
     = Inr \<lparr>embeddings = [Some (JArray [JNumber 1, JNumber 2])], usage = None,
            rawResponse_headers = [(''content-type'', ''application/json'')]\<rparr>"
    by (simp add: example_doEmbed embeddings_of_def usage_of_def)
  from doEmbed_vectors_follow_response [OF this] show ?thesis by simp
qed

text \<open>
  C3. On a successful response the shape is told by whether the parsed body is an array.
  A bare array of items gives the \<^verbatim>\<open>embedding\<close> property of each item, in order; an
  object gives the \<^verbatim>\<open>embedding\<close> property of each item of its \<^verbatim>\<open>data\<close> array, in
  order, and the empty sequence, not a failure, when it has no \<^verbatim>\<open>data\<close>. (An item may
  be any JSON value but \<^verbatim>\<open>null\<close>; an \<^verbatim>\<open>{embedding}\<close> object is one.)
\<close>

theorem doEmbed_embeddings_by_shape:
  assumes "cfg_headers (emb_config this) environment = Inr hs"
    and "fetchFn pf (emb_config this) (embed_request this pf options hs) = Inr response"
    and "ok response"
    and "resp_json response = Inr body"
  shows "(\<forall>items. body = JArray items \<and> JNull \<notin> set items \<longrightarrow>
            (\<exists>r. fst (doEmbed pf environment this options) = Inr r
               \<and> embeddings r = map (\<lambda>d. own_prop d ''embedding'') items))
       \<and> (\<forall>kvs. body = JObject kvs \<and> map_of kvs ''data'' = None \<longrightarrow>
            (\<exists>r. fst (doEmbed pf environment this options) = Inr r \<and> embeddings r = []))
       \<and> (\<forall>kvs items. body = JObject kvs \<and> map_of kvs ''data'' = Some (JArray items)
              \<and> JNull \<notin> set items \<longrightarrow>
            (\<exists>r. fst (doEmbed pf environment this options) = Inr r
               \<and> embeddings r = map (\<lambda>d. own_prop d ''embedding'') items))"
proof (intro conjI allI impI)
  fix items
  assume a: "body = JArray items \<and> JNull \<notin> set items"
  then have "embeddings_of body = Inr (map (\<lambda>d. own_prop d ''embedding'') items)"
    by (simp add: embeddings_of_def embeddings_of_items)
  moreover from a have "usage_of body = Inr None"
    by (simp add: usage_of_def)
  ultimately show "\<exists>r. fst (doEmbed pf environment this options) = Inr r
      \<and> embeddings r = map (\<lambda>d. own_prop d ''embedding'') items"
    by (simp add: doEmbed_success [OF assms])
next
  fix kvs
  assume a: "body = JObject kvs \<and> map_of kvs ''data'' = None"
  then have "embeddings_of body = Inr []"
    by (simp add: embeddings_of_def)
  moreover from a obtain u where "usage_of body = Inr u"
    using usage_of_total [of body] by auto
  ultimately show "\<exists>r. fst (doEmbed pf environment this options) = Inr r \<and> embeddings r = []"
    by (simp add: doEmbed_success [OF assms])
next
  fix kvs items
  assume a: "body = JObject kvs \<and> map_of kvs ''data'' = Some (JArray items)
    \<and> JNull \<notin> set items"
  then have "embeddings_of body = Inr (map (\<lambda>d. own_prop d ''embedding'') items)"
    by (simp add: embeddings_of_def embeddings_of_items)
  moreover from a obtain u where "usage_of body = Inr u"
    using usage_of_total [of body] by auto
  ultimately show "\<exists>r. fst (doEmbed pf environment this options) = Inr r
      \<and> embeddings r = map (\<lambda>d. own_prop d ''embedding'') items"
    by (simp add: doEmbed_success [OF assms])
qed

theorem doEmbed_embeddings_by_shape_witness:
  "(\<exists>r. fst (doEmbed
            (example_platform (Inr (ok_response
               (JArray [JObject [(''embedding'', JArray [JNumber (1 / 10), JNumber (1 / 5)])],
                        JObject [(''embedding'', JArray [JNumber (3 / 10), JNumber (2 / 5)])]]))))
            Map.empty example_embedding_model
            \<lparr>e_values = [''a'', ''b''], e_abortSignal = None, e_headers = None\<rparr>) = Inr r
        \<and> embeddings r = [Some (JArray [JNumber (1 / 10), JNumber (1 / 5)]),
                          Some (JArray [JNumber (3 / 10), JNumber (2 / 5)])])
   \<and> (\<exists>r. fst (doEmbed
            (example_platform (Inr (ok_response
               (JObject [(''usage'', JObject [(''total_tokens'', JNumber 5)])]))))
            Map.empty example_embedding_model
            \<lparr>e_values = [''a''], e_abortSignal = None, e_headers = None\<rparr>) = Inr r
        \<and> embeddings r = [])
   \<and> (\<exists>r. fst (doEmbed
            (example_platform (Inr (ok_response
               (JObject [(''data'', JArray [JObject [(''embedding'', JArray [JNumber 1, JNumber 2])]]),
                         (''usage'', JObject [(''total_tokens'', JNumber 5)])]))))
            Map.empty example_embedding_model
            \<lparr>e_values = [''a''], e_abortSignal = None, e_headers = None\<rparr>) = Inr r
        \<and> embeddings r = [Some (JArray [JNumber 1, JNumber 2])])"
proof (intro conjI)
  show "\<exists>r. fst (doEmbed
            (example_platform (Inr (ok_response
               (JArray [JObject [(''embedding'', JArray [JNumber (1 / 10), JNumber (1 / 5)])],
                        JObject [(''embedding'', JArray [JNumber (3 / 10), JNumber (2 / 5)])]]))))
            Map.empty example_embedding_model
            \<lparr>e_values = [''a'', ''b''], e_abortSignal = None, e_headers = None\<rparr>) = Inr r
        \<and> embeddings r = [Some (JArray [JNumber (1 / 10), JNumber (1 / 5)]),
                          Some (JArray [JNumber (3 / 10), JNumber (2 / 5)])]"
    using doEmbed_embeddings_by_shape [OF example_embedding_headers example_embedding_fetch
        ok_ok_response resp_json_ok_response,
        of "JArray [JObject [(''embedding'', JArray [JNumber (1 / 10), JNumber (1 / 5)])],
                    JObject [(''embedding'', JArray [JNumber (3 / 10), JNumber (2 / 5)])]]"
           Map.empty
           "\<lparr>e_values = [''a'', ''b''], e_abortSignal = None, e_headers = None\<rparr>"]
    by (simp add: own_prop_def)
  show "\<exists>r. fst (doEmbed
            (example_platform (Inr (ok_response
               (JObject [(''usage'', JObject [(''total_tokens'', JNumber 5)])]))))
            Map.empty example_embedding_model
            \<lparr>e_values = [''a''], e_abortSignal = None, e_headers = None\<rparr>) = Inr r
        \<and> embeddings r = []"
    using doEmbed_embeddings_by_shape [OF example_embedding_headers example_embedding_fetch
        ok_ok_response resp_json_ok_response,
        of "JObject [(''usage'', JObject [(''total_tokens'', JNumber 5)])]"
           Map.empty
           "\<lparr>e_values = [''a''], e_abortSignal = None, e_headers = None\<rparr>"]
    by simp
  show "\<exists>r. fst (doEmbed
            (example_platform (Inr (ok_response
               (JObject [(''data'', JArray [JObject [(''embedding'', JArray [JNumber 1, JNumber 2])]]),
                         (''usage'', JObject [(''total_tokens'', JNumber 5)])]))))
            Map.empty example_embedding_model
            \<lparr>e_values = [''a''], e_abortSignal = None, e_headers = None\<rparr>) = Inr r
        \<and> embeddings r = [Some (JArray [JNumber 1, JNumber 2])]"
    using doEmbed_embeddings_by_shape [OF example_embedding_headers example_embedding_fetch
        ok_ok_response resp_json_ok_response,
        of "JObject [(''data'', JArray [JObject [(''embedding'', JArray [JNumber 1, JNumber 2])]]),
                     (''usage'', JObject [(''total_tokens'', JNumber 5)])]"
           Map.empty
           "\<lparr>e_values = [''a''], e_abortSignal = None, e_headers = None\<rparr>"]
    by (simp add: own_prop_def)
qed

text \<open>
  C4. On a successful response that is an object with a \<^verbatim>\<open>usage\<close> object, the token
  count of the result is \<^verbatim>\<open>total_tokens\<close> when that is there, else \<^verbatim>\<open>prompt_tokens\<close>
  when that is there, else \<open>0\<close>; the result has no usage at all when the response is a
  bare array or has no \<^verbatim>\<open>usage\<close> field. A field counts as there when it has a value
  other than \<^verbatim>\<open>null\<close>, so a token count of \<open>0\<close> is kept, and a \<^verbatim>\<open>usage\<close> of
  \<^verbatim>\<open>null\<close> gives no usage, as an absent one does.
\<close>

theorem doEmbed_usage:
  assumes "cfg_headers (emb_config this) environment = Inr hs"
    and "fetchFn pf (emb_config this) (embed_request this pf options hs) = Inr response"
    and "ok response"
    and "resp_json response = Inr body"
    and "fst (doEmbed pf environment this options) = Inr r"
  shows "(isArray body \<longrightarrow> usage r = None)
       \<and> (\<forall>kvs. body = JObject kvs \<and> nullish (map_of kvs ''usage'') \<longrightarrow> usage r = None)
       \<and> (\<forall>kvs u. body = JObject kvs \<and> map_of kvs ''usage'' = Some (JObject u) \<longrightarrow>
            (\<exists>t. usage r = Some \<lparr>tokens = t\<rparr>
               \<and> (\<forall>v. map_of u ''total_tokens'' = Some v \<and> v \<noteq> JNull \<longrightarrow> t = v)
               \<and> (\<forall>v. nullish (map_of u ''total_tokens'')
                      \<and> map_of u ''prompt_tokens'' = Some v \<and> v \<noteq> JNull \<longrightarrow> t = v)
               \<and> (nullish (map_of u ''total_tokens'') \<and> nullish (map_of u ''prompt_tokens'')
                      \<longrightarrow> t = JNumber 0)))"
proof -
  from assms(5) doEmbed_success [OF assms(1-4)]
  have u: "usage_of body = Inr (usage r)"
    by (auto split: sum.splits)
  show ?thesis
  proof (intro conjI allI impI)
    assume "isArray body"
    with u show "usage r = None" by (simp add: usage_of_def)
  next
    fix kvs
    assume a: "body = JObject kvs \<and> nullish (map_of kvs ''usage'')"
    then have "map_of kvs ''usage'' = None \<or> map_of kvs ''usage'' = Some JNull"
      by (auto elim: nullish.elims)
    with a u show "usage r = None" by (auto simp: usage_of_object)
  next
    fix kvs uo
    assume a: "body = JObject kvs \<and> map_of kvs ''usage'' = Some (JObject uo)"
    let ?t = "if nullish (map_of uo ''total_tokens'')
              then or_else (map_of uo ''prompt_tokens'') (JNumber 0)
              else or_else (map_of uo ''total_tokens'') (JNumber 0)"
    from a u have "Inr (usage r) = usage_of (JObject kvs)"
      by simp
    also from a have "\<dots> = Inr (Some \<lparr>tokens = ?t\<rparr>)"
      by (simp add: usage_of_object own_prop_def)
    finally have "usage r = Some \<lparr>tokens = ?t\<rparr>"
      by simp
    moreover have "\<forall>v. map_of uo ''total_tokens'' = Some v \<and> v \<noteq> JNull \<longrightarrow> ?t = v"
      by (auto simp: or_else_def elim: nullish.elims)
    moreover have "\<forall>v. nullish (map_of uo ''total_tokens'')
        \<and> map_of uo ''prompt_tokens'' = Some v \<and> v \<noteq> JNull \<longrightarrow> ?t = v"
      by (auto simp: or_else_def elim: nullish.elims)
    moreover have "nullish (map_of uo ''total_tokens'') \<and> nullish (map_of uo ''prompt_tokens'')
        \<longrightarrow> ?t = JNumber 0"
      by (auto simp: or_else_def split: option.splits)
    ultimately show "\<exists>t. usage r = Some \<lparr>tokens = t\<rparr>
               \<and> (\<forall>v. map_of uo ''total_tokens'' = Some v \<and> v \<noteq> JNull \<longrightarrow> t = v)
               \<and> (\<forall>v. nullish (map_of uo ''total_tokens'')
                      \<and> map_of uo ''prompt_tokens'' = Some v \<and> v \<noteq> JNull \<longrightarrow> t = v)
               \<and> (nullish (map_of uo ''total_tokens'') \<and> nullish (map_of uo ''prompt_tokens'')
                      \<longrightarrow> t = JNumber 0)"
      by blast
  qed
qed

theorem doEmbed_usage_witness:
  "usage \<lparr>embeddings = [], usage = Some \<lparr>tokens = JNumber 7\<rparr>,
          rawResponse_headers = [(''content-type'', ''application/json'')]\<rparr>
     = Some \<lparr>tokens = JNumber 7\<rparr>
   \<and> fst (doEmbed
            (example_platform (Inr (ok_response
               (JObject [(''usage'', JObject [(''prompt_tokens'', JNumber 7)])]))))
            Map.empty example_embedding_model
            \<lparr>e_values = [''a''], e_abortSignal = None, e_headers = None\<rparr>)
     = Inr \<lparr>embeddings = [], usage = Some \<lparr>tokens = JNumber 7\<rparr>,
            rawResponse_headers = [(''content-type'', ''application/json'')]\<rparr>"
proof -
  have run: "fst (doEmbed
            (example_platform (Inr (ok_response
               (JObject [(''usage'', JObject [(''prompt_tokens'', JNumber 7)])]))))
            Map.empty example_embedding_model
            \<lparr>e_values = [''a''], e_abortSignal = None, e_headers = None\<rparr>)
     = Inr \<lparr>embeddings = [], usage = Some \<lparr>tokens = JNumber 7\<rparr>,
            rawResponse_headers = [(''content-type'', ''application/json'')]\<rparr>"
    by (simp add: example_doEmbed embeddings_of_def usage_of_def or_else_def)
  from doEmbed_usage [OF example_embedding_headers example_embedding_fetch
      ok_ok_response resp_json_ok_response run] run
  show ?thesis by simp
qed

section \<open>Both translators: headers and HTTP errors\<close>

text \<open>
  C5. Each translator issues its request with the headers built by precedence: the fixed
  \<^verbatim>\<open>Content-Type: application/json\<close>, overridden by the configuration's headers,
  overridden by the per-call headers, where a per-call header whose value is
  \<^verbatim>\<open>undefined\<close> is skipped: it neither overrides nor appears. The configuration's
  headers and the per-call headers are objects, so each names a header once.
\<close>

theorem outbound_headers_precedence:
  assumes "cfg_headers (emb_config em) environment = Inr hs"
    and "distinct (map fst hs)" and "distinct_names (e_headers eopts)"
    and "cfg_headers (tr_config tm) environment = Inr hs'"
    and "distinct (map fst hs')" and "distinct_names (t_headers topts)"
  shows "(\<exists>request. snd (doEmbed pf environment em eopts) = [request]
            \<and> (\<forall>name. map_of (req_headers request) name =
                  headers_by_precedence hs (e_headers eopts) name))
       \<and> (\<exists>request. snd (doGenerate pf environment tm topts) = [request]
            \<and> (\<forall>name. map_of (req_headers request) name =
                  headers_by_precedence hs' (t_headers topts) name))"
proof
  show "\<exists>request. snd (doEmbed pf environment em eopts) = [request]
            \<and> (\<forall>name. map_of (req_headers request) name =
                  headers_by_precedence hs (e_headers eopts) name)"
    using doEmbed_trace [OF assms(1)] request_headers_lookup [OF assms(2,3)]
    by (simp add: embed_request_def)
  show "\<exists>request. snd (doGenerate pf environment tm topts) = [request]
            \<and> (\<forall>name. map_of (req_headers request) name =
                  headers_by_precedence hs' (t_headers topts) name)"
    using doGenerate_trace [OF assms(4)] request_headers_lookup [OF assms(5,6)]
    by (simp add: transcribe_request_def)
qed

theorem outbound_headers_precedence_witness:
  "(\<exists>request.
      snd (doEmbed (example_platform (Inl (TransportError ''offline''))) Map.empty
             example_embedding_model
             \<lparr>e_values = [''a''], e_abortSignal = None,
              e_headers = Some [(''X-Trace'', None), (''Content-Type'', Some ''text/plain'')]\<rparr>)
        = [request]
    \<and> map_of (req_headers request) ''X-Trace'' = None
    \<and> map_of (req_headers request) ''Content-Type'' = Some ''text/plain''
    \<and> map_of (req_headers request) ''Authorization'' = Some ''Bearer sk-test'')
   \<and> (\<exists>request.
      snd (doGenerate (example_platform (Inl (TransportError ''offline''))) Map.empty
             example_transcription_model
             \<lparr>t_audio = AudioText ''QUJD'', t_mediaType = ''audio/wav'', t_abortSignal = None,
              t_headers = Some [(''Authorization'', Some ''Bearer other''), (''X-Trace'', None)],
              t_providerOptions = None\<rparr>)
        = [request]
    \<and> map_of (req_headers request) ''X-Trace'' = None
    \<and> map_of (req_headers request) ''Content-Type'' = Some ''application/json''
    \<and> map_of (req_headers request) ''Authorization'' = Some ''Bearer other'')"
proof -
  have d: "distinct (map fst [(''Authorization'', ''Bearer sk-test'')])"
    by simp
  have de: "distinct_names (e_headers
      \<lparr>e_values = [''a''], e_abortSignal = None,
       e_headers = Some [(''X-Trace'', None), (''Content-Type'', Some ''text/plain'')]\<rparr>)"
    by (simp add: distinct_names_def)
  have dt: "distinct_names (t_headers
      \<lparr>t_audio = AudioText ''QUJD'', t_mediaType = ''audio/wav'', t_abortSignal = None,
       t_headers = Some [(''Authorization'', Some ''Bearer other''), (''X-Trace'', None)],
       t_providerOptions = None\<rparr>)"
    by (simp add: distinct_names_def)
  from outbound_headers_precedence [OF example_embedding_headers d de
      example_transcription_headers d dt,
      of "example_platform (Inl (TransportError ''offline''))" Map.empty]
  show ?thesis
    by (clarsimp simp: headers_by_precedence_def)
qed

text \<open>
  C6. When the transport returns a response whose status is outside 200 to 299, each
  translator fails with one \<open>Error\<close> whose message contains the decimal status and the
  response text as it was received, and it has issued exactly one HTTP call: there is no
  retry.
\<close>

theorem http_error_single_failure:
  assumes "cfg_headers (emb_config em) environment = Inr hs"
    and "fetchFn pf (emb_config em) (embed_request em pf eopts hs) = Inr response"
    and "status response \<notin> {200..299}"
    and "cfg_headers (tr_config tm) environment = Inr hs'"
    and "fetchFn pf (tr_config tm) (transcribe_request tm pf topts hs'
           (json_stringify pf (JObject (requestBody tm topts)))) = Inr response'"
    and "status response' \<notin> {200..299}"
  shows "(\<exists>message request.
            doEmbed pf environment em eopts = (Inl (Error message), [request])
          \<and> sublist (string_of_nat (status response)) message
          \<and> sublist (resp_text response) message)
       \<and> (\<exists>message request.
            doGenerate pf environment tm topts = (Inl (Error message), [request])
          \<and> sublist (string_of_nat (status response')) message
          \<and> sublist (resp_text response') message)"
proof
  from assms(3) have "\<not> ok response" by (auto simp: ok_def)
  with assms(1,2) have "doEmbed pf environment em eopts =
      (Inl (Error (''SCX embedding request failed: '' @ string_of_nat (status response)
         @ '' '' @ resp_text response)), [embed_request em pf eopts hs])"
    by (simp add: doEmbed_def)
  moreover have "sublist (string_of_nat (status response))
      (''SCX embedding request failed: '' @ string_of_nat (status response)
         @ '' '' @ resp_text response)"
    by (rule sublist_appendI)
  moreover have "sublist (resp_text response)
      ((''SCX embedding request failed: '' @ string_of_nat (status response) @ '' '')
         @ resp_text response)"
    by (rule sublist_append_leftI)
  ultimately show "\<exists>message request.
            doEmbed pf environment em eopts = (Inl (Error message), [request])
          \<and> sublist (string_of_nat (status response)) message
          \<and> sublist (resp_text response) message"
    by simp
next
  from assms(6) have "\<not> ok response'" by (auto simp: ok_def)
  with assms(4,5) have "doGenerate pf environment tm topts =
      (Inl (Error (''SCX transcription request failed: '' @ string_of_nat (status response')
         @ '' '' @ resp_text response')),
       [transcribe_request tm pf topts hs' (json_stringify pf (JObject (requestBody tm topts)))])"
    by (simp add: doGenerate_def)
  moreover have "sublist (string_of_nat (status response'))
      (''SCX transcription request failed: '' @ string_of_nat (status response')
         @ '' '' @ resp_text response')"
    by (rule sublist_appendI)
  moreover have "sublist (resp_text response')
      ((''SCX transcription request failed: '' @ string_of_nat (status response') @ '' '')
         @ resp_text response')"
    by (rule sublist_append_leftI)
  ultimately show "\<exists>message request.
            doGenerate pf environment tm topts = (Inl (Error message), [request])
          \<and> sublist (string_of_nat (status response')) message
          \<and> sublist (resp_text response') message"
    by simp
qed

theorem http_error_single_failure_witness:
  "(\<exists>message request.
      doEmbed (example_platform (Inr (error_response 429 ''rate limited''))) Map.empty
        example_embedding_model
        \<lparr>e_values = [''a''], e_abortSignal = None, e_headers = None\<rparr>
        = (Inl (Error message), [request])
    \<and> sublist ''429'' message \<and> sublist ''rate limited'' message)
   \<and> (\<exists>message request.
      doGenerate (example_platform (Inr (error_response 429 ''rate limited''))) Map.empty
        example_transcription_model
        \<lparr>t_audio = AudioText ''QUJD'', t_mediaType = ''audio/wav'', t_abortSignal = None,
         t_headers = None, t_providerOptions = None\<rparr>
        = (Inl (Error message), [request])
    \<and> sublist ''429'' message \<and> sublist ''rate limited'' message)"
proof -
  have s: "status (error_response 429 ''rate limited'') \<notin> {200..299}"
    by (simp add: error_response_def)
  have st: "status (error_response 429 ''rate limited'') = 429"
    and tx: "resp_text (error_response 429 ''rate limited'') = ''rate limited''"
    by (simp_all add: error_response_def)
  from http_error_single_failure [OF example_embedding_headers example_embedding_fetch s
      example_transcription_headers example_transcription_fetch s,
      of Map.empty
         "\<lparr>e_values = [''a''], e_abortSignal = None, e_headers = None\<rparr>"
         "\<lparr>t_audio = AudioText ''QUJD'', t_mediaType = ''audio/wav'', t_abortSignal = None,
           t_headers = None, t_providerOptions = None\<rparr>"]
  show ?thesis
    unfolding st tx string_of_nat_429 .
qed

section \<open>The transcription translator: results and the wire body\<close>

text \<open>
  C7. On a successful response that is an object whose \<^verbatim>\<open>segments\<close>, when there, is an
  array of segments, the result maps each segment to its \<^verbatim>\<open>text\<close>, its \<^verbatim>\<open>start\<close> as
  \<open>startSecond\<close> and its \<^verbatim>\<open>end\<close> as \<open>endSecond\<close>, in order; \<open>text\<close> defaults
  to the empty string and \<open>segments\<close> to the empty sequence when the field is absent,
  without a failure; \<open>language\<close> and \<open>duration\<close> are passed through and are
  \<^verbatim>\<open>undefined\<close> when absent.
\<close>

theorem doGenerate_result_mapping:
  assumes "cfg_headers (tr_config this) environment = Inr hs"
    and "fetchFn pf (tr_config this) (transcribe_request this pf options hs
           (json_stringify pf (JObject (requestBody this options)))) = Inr response"
    and "ok response"
    and "resp_json response = Inr (JObject kvs)"
    and "map_of kvs ''segments'' = None
         \<or> (\<exists>segs. map_of kvs ''segments'' = Some (JArray segs) \<and> JNull \<notin> set segs)"
  shows "\<exists>r. fst (doGenerate pf environment this options) = Inr r
      \<and> res_segments r =
          (case map_of kvs ''segments'' of
             Some (JArray segs) \<Rightarrow> map segment_fields segs
           | _ \<Rightarrow> [])
      \<and> res_text r =
          (case map_of kvs ''text'' of
             None \<Rightarrow> JString []
           | Some v \<Rightarrow> if v = JNull then JString [] else v)
      \<and> res_language r = map_of kvs ''language''
      \<and> res_durationInSeconds r = map_of kvs ''duration''"
proof -
  have t: "or_else (map_of kvs ''text'') (JString []) =
      (case map_of kvs ''text'' of
         None \<Rightarrow> JString []
       | Some v \<Rightarrow> if v = JNull then JString [] else v)"
    by (auto simp: or_else_def split: option.splits elim: nullish.elims)
  from assms(5) show ?thesis
  proof
    assume absent: "map_of kvs ''segments'' = None"
    from doGenerate_success [OF assms(1-4) segments_of_absent [OF absent]] absent t
    show ?thesis by simp
  next
    assume "\<exists>segs. map_of kvs ''segments'' = Some (JArray segs) \<and> JNull \<notin> set segs"
    then obtain segs where s: "map_of kvs ''segments'' = Some (JArray segs)"
      and n: "JNull \<notin> set segs" by blast
    from doGenerate_success [OF assms(1-4) segments_of_array [OF s n]] s t
    show ?thesis by simp
  qed
qed

theorem doGenerate_result_mapping_witness:
  "(\<exists>r. fst (doGenerate
            (example_platform (Inr (ok_response
               (JObject [(''text'', JString ''hi''),
                         (''segments'', JArray [JObject [(''text'', JString ''hi''),
                            (''start'', JNumber 0), (''end'', JNumber (6 / 5))]])]))))
            Map.empty example_transcription_model
            \<lparr>t_audio = AudioText ''QUJD'', t_mediaType = ''audio/wav'', t_abortSignal = None,
             t_headers = None, t_providerOptions = None\<rparr>) = Inr r
      \<and> res_segments r = [\<lparr>seg_text = Some (JString ''hi''), startSecond = Some (JNumber 0),
                            endSecond = Some (JNumber (6 / 5))\<rparr>]
      \<and> res_text r = JString ''hi''
      \<and> res_language r = None
      \<and> res_durationInSeconds r = None)
   \<and> (\<exists>r. fst (doGenerate
            (example_platform (Inr (ok_response
               (JObject [(''language'', JString ''en''), (''duration'', JNumber 3)]))))
            Map.empty example_transcription_model
            \<lparr>t_audio = AudioText ''QUJD'', t_mediaType = ''audio/wav'', t_abortSignal = None,
             t_headers = None, t_providerOptions = None\<rparr>) = Inr r
      \<and> res_segments r = []
      \<and> res_text r = JString []
      \<and> res_language r = Some (JString ''en'')
      \<and> res_durationInSeconds r = Some (JNumber 3))"
proof
  have segs: "map_of [(''text'', JString ''hi''),
        (''segments'', JArray [JObject [(''text'', JString ''hi''),
           (''start'', JNumber 0), (''end'', JNumber (6 / 5))]])] ''segments'' = None
      \<or> (\<exists>segs. map_of [(''text'', JString ''hi''),
        (''segments'', JArray [JObject [(''text'', JString ''hi''),
           (''start'', JNumber 0), (''end'', JNumber (6 / 5))]])] ''segments''
           = Some (JArray segs) \<and> JNull \<notin> set segs)"
    by simp
  from doGenerate_result_mapping [OF example_transcription_headers
      example_transcription_fetch ok_ok_response resp_json_ok_response segs,
      of Map.empty
         "\<lparr>t_audio = AudioText ''QUJD'', t_mediaType = ''audio/wav'', t_abortSignal = None,
           t_headers = None, t_providerOptions = None\<rparr>"]
  show "\<exists>r. fst (doGenerate
            (example_platform (Inr (ok_response
               (JObject [(''text'', JString ''hi''),
                         (''segments'', JArray [JObject [(''text'', JString ''hi''),
                            (''start'', JNumber 0), (''end'', JNumber (6 / 5))]])]))))
            Map.empty example_transcription_model
            \<lparr>t_audio = AudioText ''QUJD'', t_mediaType = ''audio/wav'', t_abortSignal = None,
             t_headers = None, t_providerOptions = None\<rparr>) = Inr r
      \<and> res_segments r = [\<lparr>seg_text = Some (JString ''hi''), startSecond = Some (JNumber 0),
                            endSecond = Some (JNumber (6 / 5))\<rparr>]
      \<and> res_text r = JString ''hi''
      \<and> res_language r = None
      \<and> res_durationInSeconds r = None"
    by (simp add: segment_fields_def own_prop_def)
next
  have none: "map_of [(''language'', JString ''en''), (''duration'', JNumber 3)] ''segments'' = None
      \<or> (\<exists>segs. map_of [(''language'', JString ''en''), (''duration'', JNumber 3)] ''segments''
           = Some (JArray segs) \<and> JNull \<notin> set segs)"
    by simp
  from doGenerate_result_mapping [OF example_transcription_headers
      example_transcription_fetch ok_ok_response resp_json_ok_response none,
      of Map.empty
         "\<lparr>t_audio = AudioText ''QUJD'', t_mediaType = ''audio/wav'', t_abortSignal = None,
           t_headers = None, t_providerOptions = None\<rparr>"]
  show "\<exists>r. fst (doGenerate
            (example_platform (Inr (ok_response
               (JObject [(''language'', JString ''en''), (''duration'', JNumber 3)]))))
            Map.empty example_transcription_model
            \<lparr>t_audio = AudioText ''QUJD'', t_mediaType = ''audio/wav'', t_abortSignal = None,
             t_headers = None, t_providerOptions = None\<rparr>) = Inr r
      \<and> res_segments r = []
      \<and> res_text r = JString []
      \<and> res_language r = Some (JString ''en'')
      \<and> res_durationInSeconds r = Some (JNumber 3)"
    by simp
qed

text \<open>
  C8, as stated: the wire body's \<^verbatim>\<open>audio\<close> field is always a string. The options bag
  is merged over the base fields, so a bag that has an \<^verbatim>\<open>audio\<close> key of its own
  replaces the string: here the wire body carries the number 42.
\<close>

theorem requestBody_audio_counterexample:
  "requestBody example_transcription_model
     \<lparr>t_audio = AudioText ''QUJD'', t_mediaType = ''audio/wav'', t_abortSignal = None,
      t_headers = None, t_providerOptions = Some [(''scx'', [(''audio'', JNumber 42)])]\<rparr>
   = [(''model'', JString ''whisper-large-v3''), (''audio'', JNumber 42),
      (''media_type'', JString ''audio/wav'')]"
  by (simp add: requestBody_def scxOptions_def obj_assign_def audioData_def
      example_transcription_model_def createTranscriptionModel_def ScxTranscriptionModel_def)

text \<open>
  C8, amended: binary audio is encoded as base64 text and textual audio passes through
  unchanged, so the \<^verbatim>\<open>audio\<close> value the translator computes is always a string, and it
  is the wire body's \<^verbatim>\<open>audio\<close> field unless the options bag has an \<^verbatim>\<open>audio\<close> key;
  every key of the options bag is in the wire body with the bag's value, also where it
  collides with \<^verbatim>\<open>model\<close>, \<^verbatim>\<open>audio\<close> or \<^verbatim>\<open>media_type\<close>, and the other base fields
  are kept; the body of the one HTTP call is the serialization of that wire body, and the
  \<open>request.body\<close> of the result is that very string.
\<close>

theorem transcription_wire_body:
  assumes "distinct_names (scxOptions options)"
  shows "(\<forall>bytes. t_audio options = AudioBytes bytes \<longrightarrow>
            audioData (t_audio options) = base64 bytes)
       \<and> (\<forall>s. t_audio options = AudioText s \<longrightarrow> audioData (t_audio options) = s)
       \<and> (\<forall>name. map_of (requestBody this options) name =
            (case (case scxOptions options of None \<Rightarrow> None | Some bag \<Rightarrow> map_of bag name) of
               Some v \<Rightarrow> Some v
             | None \<Rightarrow>
                 map_of [(''model'', JString (tr_modelId this)),
                         (''audio'', JString (audioData (t_audio options))),
                         (''media_type'', JString (t_mediaType options))] name))
       \<and> ((case scxOptions options of None \<Rightarrow> None | Some bag \<Rightarrow> map_of bag ''audio'') = None
            \<longrightarrow> map_of (requestBody this options) ''audio''
                  = Some (JString (audioData (t_audio options))))
       \<and> (\<forall>r. fst (doGenerate pf environment this options) = Inr r \<longrightarrow>
            (\<exists>request. snd (doGenerate pf environment this options) = [request]
               \<and> req_body request = json_stringify pf (JObject (requestBody this options))
               \<and> res_request_body r = req_body request))"
proof (intro conjI allI impI)
  fix bytes
  assume "t_audio options = AudioBytes bytes"
  then show "audioData (t_audio options) = base64 bytes"
    by (simp add: audioData_def)
next
  fix s
  assume "t_audio options = AudioText s"
  then show "audioData (t_audio options) = s"
    by (simp add: audioData_def)
next
  fix name
  show "map_of (requestBody this options) name =
      (case (case scxOptions options of None \<Rightarrow> None | Some bag \<Rightarrow> map_of bag name) of
         Some v \<Rightarrow> Some v
       | None \<Rightarrow>
           map_of [(''model'', JString (tr_modelId this)),
                   (''audio'', JString (audioData (t_audio options))),
                   (''media_type'', JString (t_mediaType options))] name)"
    by (rule requestBody_lookup [OF assms])
next
  assume "(case scxOptions options of None \<Rightarrow> None | Some bag \<Rightarrow> map_of bag ''audio'') = None"
  then show "map_of (requestBody this options) ''audio''
      = Some (JString (audioData (t_audio options)))"
    by (simp add: requestBody_lookup [OF assms])
next
  fix r
  assume "fst (doGenerate pf environment this options) = Inr r"
  then show "\<exists>request. snd (doGenerate pf environment this options) = [request]
      \<and> req_body request = json_stringify pf (JObject (requestBody this options))
      \<and> res_request_body r = req_body request"
    by (rule doGenerate_Inr_body)
qed

theorem transcription_wire_body_witness:
  "audioData (AudioBytes [77, 97, 110]) = ''TWFu''
   \<and> audioData (AudioText ''QUJD'') = ''QUJD''
   \<and> map_of (requestBody example_transcription_model
        \<lparr>t_audio = AudioBytes [77, 97, 110], t_mediaType = ''audio/wav'', t_abortSignal = None,
         t_headers = None,
         t_providerOptions = Some [(''scx'', [(''language'', JString ''en''),
                                              (''model'', JString ''other'')])]\<rparr>) ''model''
       = Some (JString ''other'')
   \<and> map_of (requestBody example_transcription_model
        \<lparr>t_audio = AudioBytes [77, 97, 110], t_mediaType = ''audio/wav'', t_abortSignal = None,
         t_headers = None,
         t_providerOptions = Some [(''scx'', [(''language'', JString ''en''),
                                              (''model'', JString ''other'')])]\<rparr>) ''audio''
       = Some (JString ''TWFu'')
   \<and> (\<exists>request.
        snd (doGenerate (example_platform (Inr (ok_response (JObject [(''text'', JString ''hi'')]))))
               Map.empty example_transcription_model
               \<lparr>t_audio = AudioBytes [77, 97, 110], t_mediaType = ''audio/wav'',
                t_abortSignal = None, t_headers = None,
                t_providerOptions = Some [(''scx'', [(''language'', JString ''en''),
                                                     (''model'', JString ''other'')])]\<rparr>)
          = [request]
      \<and> req_body request = ''{}'')"
proof -
  let ?o = "\<lparr>t_audio = AudioBytes [77, 97, 110], t_mediaType = ''audio/wav'',
             t_abortSignal = None, t_headers = None,
             t_providerOptions = Some [(''scx'', [(''language'', JString ''en''),
                                                  (''model'', JString ''other'')])]\<rparr>"
  let ?o' = "\<lparr>t_audio = AudioText ''QUJD'', t_mediaType = ''audio/wav'',
             t_abortSignal = None, t_headers = None, t_providerOptions = None\<rparr>"
  let ?pf = "example_platform (Inr (ok_response (JObject [(''text'', JString ''hi'')])))"
  have d: "distinct_names (scxOptions ?o)" and d': "distinct_names (scxOptions ?o')"
    by (simp_all add: distinct_names_def scxOptions_def)
  have run: "\<exists>r. fst (doGenerate ?pf Map.empty example_transcription_model ?o) = Inr r"
    using doGenerate_success [OF example_transcription_headers example_transcription_fetch
        ok_ok_response resp_json_ok_response segments_of_absent,
        of "[(''text'', JString ''hi'')]" Map.empty ?o]
    by simp
  have sj: "json_stringify ?pf = (\<lambda>body. ''{}'')"
    by (simp add: example_platform_def)
  from transcription_wire_body [OF d, of example_transcription_model ?pf Map.empty]
    transcription_wire_body [OF d', of example_transcription_model ?pf Map.empty] run
  show ?thesis
    by (clarsimp simp: sj scxOptions_def base64_char_def base64_alphabet_def)
qed

section \<open>The two generations of the embedding translator\<close>

text \<open>
  C10. On every input the V2 and the V3 generation of \<open>doEmbed\<close> issue the same HTTP
  calls and fail alike, and when they succeed they return the same embeddings, the same
  usage and the same captured response headers; the V3 result has in addition a
  \<open>warnings\<close> list, which is always empty, and the parsed response body.
\<close>

theorem embed_generations_agree:
  "doEmbed pf environment this options =
     (map_sum id
        (\<lambda>r. \<lparr>embeddings = v3_embeddings r, usage = v3_usage r,
              rawResponse_headers = v3_response_headers r\<rparr>)
        (fst (doEmbed_v3 pf environment this options)),
      snd (doEmbed_v3 pf environment this options))
   \<and> (\<forall>r. fst (doEmbed_v3 pf environment this options) = Inr r \<longrightarrow>
         v3_warnings r = []
       \<and> (\<exists>hs response.
            cfg_headers (emb_config this) environment = Inr hs
          \<and> fetchFn pf (emb_config this) (embed_request this pf options hs) = Inr response
          \<and> resp_json response = Inr (v3_response_body r)))"
proof
  show "doEmbed pf environment this options =
     (map_sum id
        (\<lambda>r. \<lparr>embeddings = v3_embeddings r, usage = v3_usage r,
              rawResponse_headers = v3_response_headers r\<rparr>)
        (fst (doEmbed_v3 pf environment this options)),
      snd (doEmbed_v3 pf environment this options))"
    by (simp add: doEmbed_def doEmbed_v3_def Let_def split: sum.splits)
  show "\<forall>r. fst (doEmbed_v3 pf environment this options) = Inr r \<longrightarrow>
         v3_warnings r = []
       \<and> (\<exists>hs response.
            cfg_headers (emb_config this) environment = Inr hs
          \<and> fetchFn pf (emb_config this) (embed_request this pf options hs) = Inr response
          \<and> resp_json response = Inr (v3_response_body r))"
    by (auto simp: doEmbed_v3_def Let_def split: sum.splits if_splits)
qed

theorem embed_generations_agree_witness:
  "fst (doEmbed_v3
          (example_platform (Inr (ok_response
             (JObject [(''data'', JArray [JObject [(''embedding'', JArray [JNumber 1, JNumber 2])]]),
                       (''usage'', JObject [(''total_tokens'', JNumber 5)])]))))
          Map.empty example_embedding_model
          \<lparr>e_values = [''a''], e_abortSignal = None, e_headers = None\<rparr>)
     = Inr \<lparr>v3_embeddings = [Some (JArray [JNumber 1, JNumber 2])],
            v3_usage = Some \<lparr>tokens = JNumber 5\<rparr>,
            v3_warnings = [],
            v3_response_headers = [(''content-type'', ''application/json'')],
            v3_response_body =
              JObject [(''data'', JArray [JObject [(''embedding'', JArray [JNumber 1, JNumber 2])]]),
                       (''usage'', JObject [(''total_tokens'', JNumber 5)])]\<rparr>
   \<and> fst (doEmbed
          (example_platform (Inr (ok_response
             (JObject [(''data'', JArray [JObject [(''embedding'', JArray [JNumber 1, JNumber 2])]]),
                       (''usage'', JObject [(''total_tokens'', JNumber 5)])]))))
          Map.empty example_embedding_model
          \<lparr>e_values = [''a''], e_abortSignal = None, e_headers = None\<rparr>)
     = Inr \<lparr>embeddings = [Some (JArray [JNumber 1, JNumber 2])],
            usage = Some \<lparr>tokens = JNumber 5\<rparr>,
            rawResponse_headers = [(''content-type'', ''application/json'')]\<rparr>"
proof -
  let ?body = "JObject [(''data'', JArray [JObject [(''embedding'', JArray [JNumber 1, JNumber 2])]]),
                        (''usage'', JObject [(''total_tokens'', JNumber 5)])]"
  let ?pf = "example_platform (Inr (ok_response ?body))"
  let ?o = "\<lparr>e_values = [''a''], e_abortSignal = None, e_headers = None\<rparr>"
  have run: "fst (doEmbed_v3 ?pf Map.empty example_embedding_model ?o)
     = Inr \<lparr>v3_embeddings = [Some (JArray [JNumber 1, JNumber 2])],
            v3_usage = Some \<lparr>tokens = JNumber 5\<rparr>,
            v3_warnings = [],
            v3_response_headers = [(''content-type'', ''application/json'')],
            v3_response_body = ?body\<rparr>"
    by (simp add: doEmbed_v3_def Let_def example_embedding_headers example_embedding_fetch
        ok_ok_response resp_json_ok_response capture_headers_ok_response
        embeddings_of_def usage_of_def or_else_def)
  from embed_generations_agree [of ?pf Map.empty example_embedding_model ?o] run
  show ?thesis
    by simp
qed

end
